theory Spec2Isabelle
  imports Main
begin

section \<open>Data model of \<^verbatim>\<open>services.ts\<close>\<close>

text \<open>
  The file \<^verbatim>\<open>services.ts\<close> is a facade: every command becomes one action object
  handed to \<^verbatim>\<open>store.dispatch\<close>, every synchronous read is a lookup in the snapshot of
  the store that the constructor's subscription keeps up to date. The store, its
  reducers, the selectors and the interface declarations live in other files of the
  repository.

  The interfaces that \<^verbatim>\<open>services.ts\<close> imports from \<^verbatim>\<open>./interfaces\<close> are declared in a
  file that is missing; their shapes below follow section 3 of the specification and the
  field accesses of \<^verbatim>\<open>services.ts\<close>.
\<close>

text \<open>A JavaScript exception: \<^verbatim>\<open>new Error(message)\<close>, or the \<^verbatim>\<open>TypeError\<close> of a
  property access on \<^verbatim>\<open>null\<close>/\<^verbatim>\<open>undefined\<close>.\<close>

datatype js_error = Error string | TypeError

text \<open>Modelled from the spec: the interface \<^verbatim>\<open>ResourceIdentifier\<close> (its declaration is
  missing), \<^verbatim>\<open>{ type: string, id: string }\<close>; \<^verbatim>\<open>services.ts\<close> reads both fields.\<close>

record ResourceIdentifier =
  type' :: string
  id' :: string

text \<open>Modelled from the spec: the interface \<^verbatim>\<open>Resource\<close> (its declaration is missing),
  an identifier with attributes and relationships; relationships hold references only.\<close>

record Resource = ResourceIdentifier +
  attributes :: "string \<rightharpoonup> string"
  relationships :: "string \<rightharpoonup> ResourceIdentifier list"

text \<open>Modelled from the spec: the interface \<^verbatim>\<open>ResourceStore\<close> (its declaration is
  missing), the entry of one resource, with the two fields \<^verbatim>\<open>services.ts\<close> reads: the
  current state \<^verbatim>\<open>resource\<close> (never null for a known resource) and the last state
  confirmed by the server \<^verbatim>\<open>persistedResource\<close> (absent, here \<open>None\<close>, for a resource
  created locally).\<close>

record ResourceStore =
  resource :: Resource
  persistedResource :: "Resource option"

text \<open>Modelled from the spec: the interface \<^verbatim>\<open>NgrxJsonApiStore\<close> (its declaration is
  missing), with the field \<^verbatim>\<open>services.ts\<close> reads: \<^verbatim>\<open>data[type][id]\<close> is the entry of a
  resource. A missing property (\<^verbatim>\<open>undefined\<close>, falsy) is \<open>None\<close>.\<close>

record NgrxJsonApiStore =
  data :: "string \<rightharpoonup> (string \<rightharpoonup> ResourceStore)"

text \<open>Modelled from the spec: the interface \<^verbatim>\<open>ResourceQuery\<close> (its declaration is
  missing): the query identifier, the \<^verbatim>\<open>queryType\<close> (a string; \<open>None\<close> when the caller
  left it out) and the remaining parameters (filter, sort, include), which
  \<^verbatim>\<open>services.ts\<close> never touches.\<close>

record 'p ResourceQuery =
  queryId :: string
  queryType :: "string option"
  params :: 'p

text \<open>Query objects are passed by reference and mutated in place, so they live in a
  heap of objects; a reference that holds no object stands for \<^verbatim>\<open>null\<close>.\<close>

type_synonym ref = nat

text \<open>Modelled from the spec: the interface \<^verbatim>\<open>Payload\<close> (its declaration is missing).
  \<^verbatim>\<open>findInternal\<close> builds one from a query alone; the commands that create and update
  carry resource data, of a type left open here.\<close>

record 'd Payload =
  query :: "ref option"
  jsonApiData :: "'d option"

text \<open>The action classes imported from \<^verbatim>\<open>./actions\<close>, each with the one constructor
  argument that \<^verbatim>\<open>services.ts\<close> passes to it.\<close>

datatype 'd Action =
    ApiCreateInitAction "'d Payload"
  | ApiReadInitAction "'d Payload"
  | ApiUpdateInitAction "'d Payload"
  | ApiDeleteInitAction "'d Payload"
  | DeleteFromStateAction "'d Payload"
  | PostStoreResourceAction Resource
  | PatchStoreResourceAction Resource
  | DeleteStoreResourceAction ResourceIdentifier
  | ApiCommitInitAction string
  | RemoveQueryAction string

text \<open>What the services act on: the heap of query objects and the store, seen from
  the facade as the sequence of actions dispatched to it, oldest first.\<close>

record ('p, 'd) World =
  heap :: "ref \<rightharpoonup> 'p ResourceQuery"
  dispatched :: "'d Action list"

text \<open>\<^verbatim>\<open>store.dispatch(action)\<close>.\<close>

definition dispatch :: "'d Action \<Rightarrow> ('p, 'd) World \<Rightarrow> ('p, 'd) World" where
  "dispatch a w = w\<lparr>dispatched := dispatched w @ [a]\<rparr>"

text \<open>The actions whose names start with \<^verbatim>\<open>Api\<close> are the intents that the external
  effects turn into requests to the remote API; the others change the local store only.\<close>

fun is_api_intent :: "'d Action \<Rightarrow> bool" where
  "is_api_intent (ApiCreateInitAction _) = True"
| "is_api_intent (ApiReadInitAction _) = True"
| "is_api_intent (ApiUpdateInitAction _) = True"
| "is_api_intent (ApiDeleteInitAction _) = True"
| "is_api_intent (ApiCommitInitAction _) = True"
| "is_api_intent (DeleteFromStateAction _) = False"
| "is_api_intent (PostStoreResourceAction _) = False"
| "is_api_intent (PatchStoreResourceAction _) = False"
| "is_api_intent (DeleteStoreResourceAction _) = False"
| "is_api_intent (RemoveQueryAction _) = False"

section \<open>\<^verbatim>\<open>NgrxJsonApiService\<close>\<close>

definition create :: "'d Payload \<Rightarrow> ('p, 'd) World \<Rightarrow> ('p, 'd) World" where
  "create payload w = dispatch (ApiCreateInitAction payload) w"

definition read :: "'d Payload \<Rightarrow> ('p, 'd) World \<Rightarrow> ('p, 'd) World" where
  "read payload w = dispatch (ApiReadInitAction payload) w"

definition update :: "'d Payload \<Rightarrow> ('p, 'd) World \<Rightarrow> ('p, 'd) World" where
  "update payload w = dispatch (ApiUpdateInitAction payload) w"

definition delete :: "'d Payload \<Rightarrow> ('p, 'd) World \<Rightarrow> ('p, 'd) World" where
  "delete payload w = dispatch (ApiDeleteInitAction payload) w"

definition deleteFromState :: "'d Payload \<Rightarrow> ('p, 'd) World \<Rightarrow> ('p, 'd) World" where
  "deleteFromState payload w = dispatch (DeleteFromStateAction payload) w"

section \<open>Observables\<close>

text \<open>An observable is modelled by the notifications it delivers, in order: values, and
  possibly an error, after which nothing more is delivered.\<close>

datatype 'a Notification = Next 'a | Failed js_error

type_synonym 'a Observable = "'a Notification list"

text \<open>The \<^verbatim>\<open>map\<close> operator: the projection is applied to every value; when it throws,
  the error is delivered and the observable ends.\<close>

fun map_rx :: "('a \<Rightarrow> js_error + 'b) \<Rightarrow> 'a Observable \<Rightarrow> 'b Observable" where
  "map_rx project [] = []"
| "map_rx project (Next x # ns) =
     (case project x of Inl e \<Rightarrow> [Failed e] | Inr y \<Rightarrow> Next y # map_rx project ns)"
| "map_rx project (Failed e # ns) = [Failed e]"

section \<open>\<^verbatim>\<open>NgrxJsonApiServiceV2\<close>\<close>

text \<open>\<^verbatim>\<open>NgrxJsonApiSelectors\<close> is another file of the repository; the service uses its
  \<^verbatim>\<open>storeLocation\<close> and, for a query identifier, the observable \<^verbatim>\<open>getResults$\<close> of the
  arrays of resources the query currently yields.\<close>

record Selectors =
  storeLocation :: string
  getResults :: "string \<Rightarrow> Resource list Observable"

text \<open>The fields of the service. \<^verbatim>\<open>storeSnapshot\<close> is declared with the type
  \<^verbatim>\<open>NgrxJsonApiStore\<close> and assigned by the subscription that the constructor opens.\<close>

record NgrxJsonApiServiceV2 =
  selectors :: Selectors
  apiUrl :: string
  storeSnapshot :: NgrxJsonApiStore

text \<open>\<^verbatim>\<open>ResourceQueryHandle\<close>: the observable \<^verbatim>\<open>results\<close> and the closure
  \<^verbatim>\<open>unsubscribe\<close>, represented by the query object it captured.\<close>

record 'r ResourceQueryHandle =
  results :: "'r Observable"
  captured :: ref

definition selectResults :: "NgrxJsonApiServiceV2 \<Rightarrow> string \<Rightarrow> Resource list Observable" where
  "selectResults this qid = getResults (selectors this) qid"

definition removeQuery :: "string \<Rightarrow> ('p, 'd) World \<Rightarrow> ('p, 'd) World" where
  "removeQuery qid w = dispatch (RemoveQueryAction qid) w"

definition findInternal :: "ref \<Rightarrow> ('p, 'd) World \<Rightarrow> ('p, 'd) World" where
  "findInternal q w = dispatch (ApiReadInitAction \<lparr>query = Some q, jsonApiData = None\<rparr>) w"

text \<open>The arrow function that \<^verbatim>\<open>findOne\<close> maps over the results of its query.\<close>

definition findOne_project :: "Resource list \<Rightarrow> js_error + Resource option" where
  "findOne_project it =
     (if length it = 0 then Inr None
      else if length it = 1 then Inr (Some (it ! 0))
      else Inl (Error ''Unique result expected''))"

text \<open>\<^verbatim>\<open>findOne(query)\<close>: the assignment to \<^verbatim>\<open>query.queryType\<close> changes the caller's
  object (a \<^verbatim>\<open>TypeError\<close> when there is none); the dispatch does not change the object,
  so the \<^verbatim>\<open>queryId\<close> read afterwards is the one it had.\<close>

definition findOne ::
  "NgrxJsonApiServiceV2 \<Rightarrow> ref \<Rightarrow> ('p, 'd) World
     \<Rightarrow> js_error + (Resource option ResourceQueryHandle \<times> ('p, 'd) World)" where
  "findOne this q w =
     (case heap w q of
        None \<Rightarrow> Inl TypeError
      | Some obj \<Rightarrow>
          let w1 = w\<lparr>heap := (heap w)(q \<mapsto> obj\<lparr>queryType := Some ''getOne''\<rparr>)\<rparr>;
              w2 = findInternal q w1
          in Inr (\<lparr>results = map_rx findOne_project (selectResults this (queryId obj)),
                   captured = q\<rparr>, w2))"

definition findMany ::
  "NgrxJsonApiServiceV2 \<Rightarrow> ref \<Rightarrow> ('p, 'd) World
     \<Rightarrow> js_error + (Resource list ResourceQueryHandle \<times> ('p, 'd) World)" where
  "findMany this q w =
     (case heap w q of
        None \<Rightarrow> Inl TypeError
      | Some obj \<Rightarrow>
          let w1 = w\<lparr>heap := (heap w)(q \<mapsto> obj\<lparr>queryType := Some ''getMany''\<rparr>)\<rparr>;
              w2 = findInternal q w1
          in Inr (\<lparr>results = selectResults this (queryId obj), captured = q\<rparr>, w2))"

text \<open>Calling the closure \<^verbatim>\<open>unsubscribe\<close> of a handle: \<^verbatim>\<open>query.queryId\<close> is read from
  the captured object when the closure runs.\<close>

definition unsubscribe ::
  "'r ResourceQueryHandle \<Rightarrow> ('p, 'd) World \<Rightarrow> js_error + ('p, 'd) World" where
  "unsubscribe h w =
     (case heap w (captured h) of
        None \<Rightarrow> Inl TypeError
      | Some obj \<Rightarrow> Inr (removeQuery (queryId obj) w))"

definition getResourceSnapshot ::
  "NgrxJsonApiServiceV2 \<Rightarrow> 'a ResourceIdentifier_scheme \<Rightarrow> Resource option" where
  "getResourceSnapshot this identifier =
     (let snapshot = storeSnapshot this in
      case data snapshot (type' identifier) of
        None \<Rightarrow> None
      | Some resources \<Rightarrow>
          (case resources (id' identifier) of
             None \<Rightarrow> None
           | Some entry \<Rightarrow> Some (resource entry)))"

definition getPersistedResourceSnapshot ::
  "NgrxJsonApiServiceV2 \<Rightarrow> 'a ResourceIdentifier_scheme \<Rightarrow> Resource option" where
  "getPersistedResourceSnapshot this identifier =
     (let snapshot = storeSnapshot this in
      case data snapshot (type' identifier) of
        None \<Rightarrow> None
      | Some resources \<Rightarrow>
          (case resources (id' identifier) of
             None \<Rightarrow> None
           | Some entry \<Rightarrow> persistedResource entry))"

definition patchResource :: "Resource \<Rightarrow> ('p, 'd) World \<Rightarrow> ('p, 'd) World" where
  "patchResource r w = dispatch (PatchStoreResourceAction r) w"

definition postResource :: "Resource \<Rightarrow> ('p, 'd) World \<Rightarrow> ('p, 'd) World" where
  "postResource r w = dispatch (PostStoreResourceAction r) w"

definition deleteResource :: "ResourceIdentifier \<Rightarrow> ('p, 'd) World \<Rightarrow> ('p, 'd) World" where
  "deleteResource resourceId w = dispatch (DeleteStoreResourceAction resourceId) w"

definition commit :: "NgrxJsonApiServiceV2 \<Rightarrow> ('p, 'd) World \<Rightarrow> ('p, 'd) World" where
  "commit this w =
     (let location = storeLocation (selectors this)
      in dispatch (ApiCommitInitAction location) w)"

section \<open>\<^verbatim>\<open>getResourceSnapshot\<close> at run time\<close>

text \<open>
  \<^verbatim>\<open>getResourceSnapshot\<close> above is the method on the values its declared types admit: a
  snapshot that has been assigned, an identifier that is an object, and the store's own
  entries. At run time JavaScript admits more. The field \<^verbatim>\<open>storeSnapshot\<close> has no
  initialiser and is \<^verbatim>\<open>undefined\<close> until the subscription of the constructor assigns it;
  the identifier may be \<^verbatim>\<open>null\<close> or \<^verbatim>\<open>undefined\<close> (\<^verbatim>\<open>GetResourcePipe\<close> passes on whatever
  a template gives it); and \<^verbatim>\<open>data[type]\<close> and \<^verbatim>\<open>data[type][id]\<close> are property reads,
  which fall back to the prototype of the object when it has no own property of that
  name.
\<close>





section \<open>The store behind the facade\<close>

text \<open>
  The reducers that consume the dispatched actions are declared in files that are missing.
  The definitions of this section follow the specification (sections 3 and 4) instead.
\<close>

subsection \<open>Query registry\<close>

text \<open>Modelled from the spec: the QueryRegistry of section 4.2 (the reducer that handles
  \<^verbatim>\<open>ApiReadInitAction\<close> and \<^verbatim>\<open>RemoveQueryAction\<close> is missing). The registry tracks the
  active queries by query identifier.\<close>

type_synonym 'p QueryRegistry = "string \<rightharpoonup> 'p ResourceQuery"

text \<open>Modelled from the spec: a read intent registers its query, \<^verbatim>\<open>removeQuery\<close>
  deregisters it, and the other actions leave the registry alone. The query of a read
  intent is looked up in the heap of objects.\<close>

fun reduce_queries ::
  "(ref \<rightharpoonup> 'p ResourceQuery) \<Rightarrow> 'd Action \<Rightarrow> 'p QueryRegistry \<Rightarrow> 'p QueryRegistry" where
  "reduce_queries hp (ApiReadInitAction payload) registry =
     (case query payload of
        None \<Rightarrow> registry
      | Some q \<Rightarrow> (case hp q of None \<Rightarrow> registry | Some obj \<Rightarrow> registry(queryId obj \<mapsto> obj)))"
| "reduce_queries hp (RemoveQueryAction qid) registry = registry(qid := None)"
| "reduce_queries hp _ registry = registry"

text \<open>Modelled from the spec: after a mutation of the store the resolver re-evaluates
  the registered queries, and only those; each re-evaluation is delivered to the
  subscribers of that query identifier. \<open>resolve\<close> computes the ordered matches of one
  query and is a parameter.\<close>

definition recompute ::
  "('p ResourceQuery \<Rightarrow> NgrxJsonApiStore \<Rightarrow> ResourceIdentifier list) \<Rightarrow> NgrxJsonApiStore
     \<Rightarrow> 'p QueryRegistry \<Rightarrow> (string \<rightharpoonup> ResourceIdentifier list)" where
  "recompute resolve st registry qid =
     (case registry qid of None \<Rightarrow> None | Some obj \<Rightarrow> Some (resolve obj st))"

text \<open>Modelled from the spec: the registry the store holds once it has reduced, from
  an empty registry, the actions dispatched to it.\<close>

definition store_queries ::
  "(ref \<rightharpoonup> 'p ResourceQuery) \<Rightarrow> 'd Action list \<Rightarrow> 'p QueryRegistry" where
  "store_queries hp as = foldl (\<lambda>registry a. reduce_queries hp a registry) Map.empty as"

text \<open>Modelled from the spec: the actions that make the missing reducer register a
  query are the read intents.\<close>

fun registers_query :: "'d Action \<Rightarrow> bool" where
  "registers_query (ApiReadInitAction _) = True"
| "registers_query _ = False"

subsection \<open>Pending changes\<close>

text \<open>Modelled from the spec: the PendingChangeRecord of section 3 and the
  PendingChangeTracker of section 4.3 (the reducers that handle the staging actions are
  missing). The tracker is the sequence of pending records, ordered by the time each
  was first staged.\<close>

datatype PendingChangeRecord =
    Create Resource
  | Patch ResourceIdentifier "string \<rightharpoonup> string" "string \<rightharpoonup> ResourceIdentifier list"
  | Delete ResourceIdentifier

type_synonym PendingChangeTracker = "PendingChangeRecord list"

text \<open>Modelled from the spec: the identifier a pending record is about, the lookup of
  the record pending for an identifier, and \<^verbatim>\<open>allPending\<close>, the snapshot of the records
  in staging order (all part of the missing tracker).\<close>

fun record_identifier :: "PendingChangeRecord \<Rightarrow> ResourceIdentifier" where
  "record_identifier (Create r) = \<lparr>type' = type' r, id' = id' r\<rparr>"
| "record_identifier (Patch i _ _) = i"
| "record_identifier (Delete i) = i"

definition lookup_pending ::
  "ResourceIdentifier \<Rightarrow> PendingChangeTracker \<Rightarrow> PendingChangeRecord option" where
  "lookup_pending i t = find (\<lambda>c. record_identifier c = i) t"

definition allPending :: "PendingChangeTracker \<Rightarrow> PendingChangeRecord list" where
  "allPending t = t"

text \<open>Modelled from the spec: a staged Create takes the place of a record already
  pending for the identifier (\<^verbatim>\<open>postResource\<close>: an existing resource with the same id
  gets replaced).\<close>

definition stageCreate :: "Resource \<Rightarrow> PendingChangeTracker \<Rightarrow> PendingChangeTracker" where
  "stageCreate r t =
     (let i = \<lparr>type' = type' r, id' = id' r\<rparr> in
      case lookup_pending i t of
        None \<Rightarrow> t @ [Create r]
      | Some _ \<Rightarrow> map (\<lambda>c. if record_identifier c = i then Create r else c) t)"

text \<open>Modelled from the spec: a Patch merges into a pending Create or Patch of the same
  identifier, the fields of the later edit winning. The specification does not say what
  a Patch does to a pending Delete; here the Delete stays.\<close>

fun merge_patch ::
  "(string \<rightharpoonup> string) \<Rightarrow> (string \<rightharpoonup> ResourceIdentifier list)
     \<Rightarrow> PendingChangeRecord \<Rightarrow> PendingChangeRecord" where
  "merge_patch a rels (Create r) =
     Create (r\<lparr>attributes := attributes r ++ a, relationships := relationships r ++ rels\<rparr>)"
| "merge_patch a rels (Patch i a0 rels0) = Patch i (a0 ++ a) (rels0 ++ rels)"
| "merge_patch a rels (Delete i) = Delete i"

definition stagePatch ::
  "ResourceIdentifier \<Rightarrow> (string \<rightharpoonup> string) \<Rightarrow> (string \<rightharpoonup> ResourceIdentifier list)
     \<Rightarrow> PendingChangeTracker \<Rightarrow> PendingChangeTracker" where
  "stagePatch i a rels t =
     (case lookup_pending i t of
        None \<Rightarrow> t @ [Patch i a rels]
      | Some _ \<Rightarrow> map (\<lambda>c. if record_identifier c = i then merge_patch a rels c else c) t)"

text \<open>Modelled from the spec: a Delete discards a pending Create of the identifier
  and queues nothing; it takes the place of a pending Patch or Delete.\<close>

definition stageDelete :: "ResourceIdentifier \<Rightarrow> PendingChangeTracker \<Rightarrow> PendingChangeTracker" where
  "stageDelete i t =
     (case lookup_pending i t of
        None \<Rightarrow> t @ [Delete i]
      | Some (Create _) \<Rightarrow> filter (\<lambda>c. record_identifier c \<noteq> i) t
      | Some _ \<Rightarrow> map (\<lambda>c. if record_identifier c = i then Delete i else c) t)"

text \<open>Modelled from the spec: staging a change of any kind (\<^verbatim>\<open>applyLocalEdit\<close> of
  section 4.1, as far as the missing tracker is concerned), and a sequence of changes
  staged from the empty tracker.\<close>

fun stage :: "PendingChangeRecord \<Rightarrow> PendingChangeTracker \<Rightarrow> PendingChangeTracker" where
  "stage (Create r) t = stageCreate r t"
| "stage (Patch i a rels) t = stagePatch i a rels t"
| "stage (Delete i) t = stageDelete i t"

definition staged :: "PendingChangeRecord list \<Rightarrow> PendingChangeTracker" where
  "staged cs = foldl (\<lambda>t c. stage c t) [] cs"

subsection \<open>Resource store\<close>

text \<open>Modelled from the spec: the ResourceStore of section 4.1 (the reducer that
  stores the resources read from the server is missing): the entries, the pending
  changes, and the identifiers marked dirty for the recomputation of queries.\<close>

record ResourceStoreState =
  entries :: NgrxJsonApiStore
  pending :: PendingChangeTracker
  dirty :: "ResourceIdentifier list"

text \<open>Modelled from the spec: \<^verbatim>\<open>upsertPersisted\<close> inserts or replaces the persisted
  state of the resource's identifier; with no pending local edit for the identifier the
  current state becomes the persisted one; the identifier is marked dirty. An entry
  that did not exist gets the resource as its current state in any case, since a known
  resource always has one.\<close>

definition upsertPersisted :: "Resource \<Rightarrow> ResourceStoreState \<Rightarrow> ResourceStoreState" where
  "upsertPersisted r s =
     (let i = \<lparr>type' = type' r, id' = id' r\<rparr>;
          resources = (case data (entries s) (type' r) of None \<Rightarrow> Map.empty | Some rs \<Rightarrow> rs);
          entry = (case resources (id' r) of
                     None \<Rightarrow> \<lparr>resource = r, persistedResource = Some r\<rparr>
                   | Some e \<Rightarrow>
                       if lookup_pending i (pending s) = None
                       then \<lparr>resource = r, persistedResource = Some r\<rparr>
                       else e\<lparr>persistedResource := Some r\<rparr>)
      in s\<lparr>entries := (entries s)\<lparr>data := (data (entries s))(type' r \<mapsto> resources(id' r \<mapsto> entry))\<rparr>,
            dirty := dirty s @ [i]\<rparr>)"

text \<open>Modelled from the spec: the state of the missing store before anything was read
  or staged.\<close>

definition initialState :: ResourceStoreState where
  "initialState = \<lparr>entries = \<lparr>data = Map.empty\<rparr>, pending = [], dirty = []\<rparr>"

section \<open>Concrete inputs\<close>

text \<open>Two articles, a store snapshot and a service used to run the definitions.\<close>

definition article1 :: Resource where
  "article1 = \<lparr>type' = ''article'', id' = ''1'',
     attributes = [''title'' \<mapsto> ''first''], relationships = Map.empty\<rparr>"

definition article1_edited :: Resource where
  "article1_edited = \<lparr>type' = ''article'', id' = ''1'',
     attributes = [''title'' \<mapsto> ''draft''], relationships = Map.empty\<rparr>"

definition article2 :: Resource where
  "article2 = \<lparr>type' = ''article'', id' = ''2'',
     attributes = [''title'' \<mapsto> ''second''], relationships = Map.empty\<rparr>"

text \<open>The arrays a results selector may deliver for a query, one after the other.\<close>

definition example_results :: "string \<Rightarrow> Resource list Observable" where
  "example_results qid = [Next [article1], Next [], Next [article1, article2], Next [article2]]"

definition example_store :: NgrxJsonApiStore where
  "example_store = \<lparr>data = [''article'' \<mapsto>
     [''1'' \<mapsto> \<lparr>resource = article1_edited, persistedResource = Some article1\<rparr>]]\<rparr>"

definition example_service :: NgrxJsonApiServiceV2 where
  "example_service = \<lparr>selectors = \<lparr>storeLocation = ''api'', getResults = example_results\<rparr>,
     apiUrl = ''/api'', storeSnapshot = example_store\<rparr>"

text \<open>A world with one query object, whose caller set \<^verbatim>\<open>queryType\<close> to \<^verbatim>\<open>getMany\<close>.\<close>

definition example_query :: "unit ResourceQuery" where
  "example_query = \<lparr>queryId = ''q1'', queryType = Some ''getMany'', params = ()\<rparr>"

definition example_world :: "(unit, unit) World" where
  "example_world = \<lparr>heap = [0 \<mapsto> example_query], dispatched = []\<rparr>"

definition identifier1 :: ResourceIdentifier where
  "identifier1 = \<lparr>type' = ''article'', id' = ''1''\<rparr>"



text \<open>A resolver for which every query matches the first article.\<close>

definition example_resolve :: "unit ResourceQuery \<Rightarrow> NgrxJsonApiStore \<Rightarrow> ResourceIdentifier list" where
  "example_resolve obj st = [identifier1]"

section \<open>Properties\<close>

text \<open>
  Claim C7. Each of \<^verbatim>\<open>create\<close>, \<^verbatim>\<open>read\<close>, \<^verbatim>\<open>update\<close> and \<^verbatim>\<open>delete\<close> hands exactly
  one action to the store, the \<^verbatim>\<open>Api...InitAction\<close> of its kind carrying the payload it
  was given, and changes nothing else: the actions dispatched before are kept in order
  and no object of the heap is touched.
\<close>

theorem crud_commands_forward_one_intent:
  "create payload w = w\<lparr>dispatched := dispatched w @ [ApiCreateInitAction payload]\<rparr>
   \<and> read payload w = w\<lparr>dispatched := dispatched w @ [ApiReadInitAction payload]\<rparr>
   \<and> update payload w = w\<lparr>dispatched := dispatched w @ [ApiUpdateInitAction payload]\<rparr>
   \<and> delete payload w = w\<lparr>dispatched := dispatched w @ [ApiDeleteInitAction payload]\<rparr>"
  by (simp add: create_def read_def update_def delete_def dispatch_def)

text \<open>
  Claim C1. What a \<^verbatim>\<open>findOne\<close> handle delivers is decided by the number of matches of
  each array of results: the handle's results are the query's results mapped through
  the projection, which delivers the absent value (\<^verbatim>\<open>null\<close>) for no match, the
  resource itself for a single match, and for two or more matches fails with the error
  \<^verbatim>\<open>Error("Unique result expected")\<close>, the ambiguous-result error of the
  specification; then the error is all that is delivered, no resource is picked.
\<close>

theorem findOne_delivers_by_match_count:
  "heap w q = Some obj \<Longrightarrow>
     (\<exists>w'. findOne this q w
              = Inr (\<lparr>results = map_rx findOne_project (getResults (selectors this) (queryId obj)),
                       captured = q\<rparr>, w'))
     \<and> map_rx findOne_project (Next [] # ns) = Next None # map_rx findOne_project ns
     \<and> map_rx findOne_project (Next [r] # ns) = Next (Some r) # map_rx findOne_project ns
     \<and> map_rx findOne_project (Next (r1 # r2 # rs) # ns)
         = [Failed (Error ''Unique result expected'')]"
  by (simp add: findOne_def findOne_project_def selectResults_def Let_def)

theorem findOne_delivers_by_match_count_witness:
  "heap example_world 0 = Some example_query
   \<and> results (fst (projr (findOne example_service 0 example_world)))
       = [Next (Some article1), Next None, Failed (Error ''Unique result expected'')]"
  using findOne_delivers_by_match_count [of example_world 0 example_query example_service]
  by (simp add: example_world_def example_service_def example_results_def
        findOne_def findOne_project_def selectResults_def Let_def)

text \<open>
  Claim C2, as stated, does not hold: \<^verbatim>\<open>findOne\<close> does not check the \<^verbatim>\<open>queryType\<close> of
  its query. Given a query whose \<^verbatim>\<open>queryType\<close> is \<^verbatim>\<open>getMany\<close> it raises nothing,
  dispatches the read intent and returns a handle.
\<close>

theorem findOne_accepts_getMany_query:
  "findOne example_service 0 example_world
     = Inr (\<lparr>results = [Next (Some article1), Next None, Failed (Error ''Unique result expected'')],
              captured = 0\<rparr>,
            \<lparr>heap = [0 \<mapsto> \<lparr>queryId = ''q1'', queryType = Some ''getOne'', params = ()\<rparr>],
             dispatched = [ApiReadInitAction \<lparr>query = Some 0, jsonApiData = None\<rparr>]\<rparr>)"
  by (simp add: example_world_def example_service_def example_results_def example_query_def
        findOne_def findOne_project_def selectResults_def findInternal_def dispatch_def Let_def)

text \<open>
  Claim C2, amended. \<^verbatim>\<open>findOne\<close> and \<^verbatim>\<open>findMany\<close> accept every query object whatever
  its \<^verbatim>\<open>queryType\<close>: each returns a handle, dispatches one read intent that refers to
  the query, and by then the query's \<^verbatim>\<open>queryType\<close> is \<^verbatim>\<open>getOne\<close> (for \<^verbatim>\<open>findOne\<close>) or
  \<^verbatim>\<open>getMany\<close> (for \<^verbatim>\<open>findMany\<close>).
\<close>

theorem find_sets_queryType_unchecked:
  "heap w q = Some obj \<Longrightarrow>
     (\<exists>h w'. findOne this q w = Inr (h, w')
        \<and> dispatched w' = dispatched w @ [ApiReadInitAction \<lparr>query = Some q, jsonApiData = None\<rparr>]
        \<and> map_option queryType (heap w' q) = Some (Some ''getOne''))
     \<and> (\<exists>h w'. findMany this q w = Inr (h, w')
        \<and> dispatched w' = dispatched w @ [ApiReadInitAction \<lparr>query = Some q, jsonApiData = None\<rparr>]
        \<and> map_option queryType (heap w' q) = Some (Some ''getMany''))"
  by (simp add: findOne_def findMany_def findInternal_def dispatch_def Let_def)

theorem find_sets_queryType_unchecked_witness:
  "heap example_world 0 = Some example_query
   \<and> queryType example_query = Some ''getMany''
   \<and> dispatched (snd (projr (findOne example_service 0 example_world)))
       = [ApiReadInitAction \<lparr>query = Some 0, jsonApiData = None\<rparr>]
   \<and> map_option queryType (heap (snd (projr (findOne example_service 0 example_world))) 0)
       = Some (Some ''getOne'')
   \<and> map_option queryType (heap (snd (projr (findMany example_service 0 example_world))) 0)
       = Some (Some ''getMany'')"
  using find_sets_queryType_unchecked [of example_world 0 example_query example_service]
  by (auto simp: example_world_def example_query_def)





text \<open>
  Claim C6. \<^verbatim>\<open>patchResource\<close>, \<^verbatim>\<open>postResource\<close> and \<^verbatim>\<open>deleteResource\<close> each dispatch
  exactly one action, the store-level action of their kind, and add nothing to the
  intents for the remote API; \<^verbatim>\<open>commit\<close> is what adds one.
\<close>

theorem staging_commands_stay_local:
  "patchResource r w = w\<lparr>dispatched := dispatched w @ [PatchStoreResourceAction r]\<rparr>
   \<and> postResource r w = w\<lparr>dispatched := dispatched w @ [PostStoreResourceAction r]\<rparr>
   \<and> deleteResource i w = w\<lparr>dispatched := dispatched w @ [DeleteStoreResourceAction i]\<rparr>
   \<and> filter is_api_intent (dispatched (patchResource r w)) = filter is_api_intent (dispatched w)
   \<and> filter is_api_intent (dispatched (postResource r w)) = filter is_api_intent (dispatched w)
   \<and> filter is_api_intent (dispatched (deleteResource i w)) = filter is_api_intent (dispatched w)
   \<and> filter is_api_intent (dispatched (commit this w))
       = filter is_api_intent (dispatched w) @ [ApiCommitInitAction (storeLocation (selectors this))]"
  by (simp add: patchResource_def postResource_def deleteResource_def commit_def dispatch_def)

text \<open>
  Claim C10. \<^verbatim>\<open>findOne\<close> and \<^verbatim>\<open>findMany\<close> change the caller's query object in place:
  the read intent is dispatched in a world where the object's \<^verbatim>\<open>queryType\<close> has
  already been overwritten with \<^verbatim>\<open>getOne\<close> or \<^verbatim>\<open>getMany\<close>, whatever it was; the other
  fields of the object and all other objects are as before.
\<close>

theorem find_mutates_query_in_place:
  "heap w q = Some obj \<Longrightarrow>
     (\<exists>h w' obj'. findOne this q w = Inr (h, w')
        \<and> w' = findInternal q (w\<lparr>heap := (heap w)(q \<mapsto> obj\<lparr>queryType := Some ''getOne''\<rparr>)\<rparr>)
        \<and> heap w' q = Some obj'
        \<and> queryType obj' = Some ''getOne''
        \<and> queryId obj' = queryId obj \<and> params obj' = params obj
        \<and> (\<forall>q'. q' = q \<or> heap w' q' = heap w q'))
     \<and> (\<exists>h w' obj'. findMany this q w = Inr (h, w')
        \<and> w' = findInternal q (w\<lparr>heap := (heap w)(q \<mapsto> obj\<lparr>queryType := Some ''getMany''\<rparr>)\<rparr>)
        \<and> heap w' q = Some obj'
        \<and> queryType obj' = Some ''getMany''
        \<and> queryId obj' = queryId obj \<and> params obj' = params obj
        \<and> (\<forall>q'. q' = q \<or> heap w' q' = heap w q'))"
  by (simp add: findOne_def findMany_def findInternal_def dispatch_def Let_def)

theorem find_mutates_query_in_place_witness:
  "heap example_world 0 = Some example_query
   \<and> heap (snd (projr (findOne example_service 0 example_world))) 0
       = Some \<lparr>queryId = ''q1'', queryType = Some ''getOne'', params = ()\<rparr>
   \<and> heap (snd (projr (findMany example_service 0 example_world))) 0
       = Some \<lparr>queryId = ''q1'', queryType = Some ''getMany'', params = ()\<rparr>"
  using find_mutates_query_in_place [of example_world 0 example_query example_service]
  by (auto simp: example_world_def example_query_def)

subsection \<open>Unsubscribing\<close>

lemma removed_stays_removed:
  "registry qid = None \<Longrightarrow> list_all (\<lambda>a. \<not> registers_query a) as
     \<Longrightarrow> foldl (\<lambda>registry a. reduce_queries hp a registry) registry as qid = None"
proof (induction as arbitrary: registry)
  case Nil
  then show ?case by simp
next
  case (Cons a as)
  from Cons.prems have "reduce_queries hp a registry qid = None"
    by (cases a) simp_all
  moreover from Cons.prems have "list_all (\<lambda>a. \<not> registers_query a) as" by simp
  ultimately show ?case using Cons.IH by simp
qed

text \<open>
  Claim C5. The \<^verbatim>\<open>unsubscribe\<close> of a handle returned by \<^verbatim>\<open>findOne\<close> or \<^verbatim>\<open>findMany\<close> is
  \<^verbatim>\<open>removeQuery\<close> on the query's identifier, which dispatches one \<^verbatim>\<open>RemoveQueryAction\<close>.
  In the registry of the specification a second \<^verbatim>\<open>removeQuery\<close> of the same identifier
  changes nothing, and after the removal, whatever later actions the store reduces
  (short of a new read intent), a recomputation delivers nothing for that identifier.
\<close>

theorem unsubscribe_removes_query_once:
  assumes "heap w q = Some obj"
  shows "(\<exists>h w'. findOne this q w = Inr (h, w')
            \<and> unsubscribe h w' = Inr (removeQuery (queryId obj) w'))
       \<and> (\<exists>h w'. findMany this q w = Inr (h, w')
            \<and> unsubscribe h w' = Inr (removeQuery (queryId obj) w'))
       \<and> dispatched (removeQuery qid v) = dispatched v @ [RemoveQueryAction qid]
       \<and> store_queries hp (dispatched (removeQuery qid (removeQuery qid v)))
           = store_queries hp (dispatched (removeQuery qid v))
       \<and> (list_all (\<lambda>a. \<not> registers_query a) as \<longrightarrow>
            recompute resolve st (store_queries hp (dispatched (removeQuery qid v) @ as)) qid = None)"
proof -
  have handles: "(\<exists>h w'. findOne this q w = Inr (h, w')
            \<and> unsubscribe h w' = Inr (removeQuery (queryId obj) w'))
       \<and> (\<exists>h w'. findMany this q w = Inr (h, w')
            \<and> unsubscribe h w' = Inr (removeQuery (queryId obj) w'))"
    using assms
    by (simp add: findOne_def findMany_def unsubscribe_def findInternal_def dispatch_def Let_def)
  have one: "dispatched (removeQuery qid v) = dispatched v @ [RemoveQueryAction qid]"
    by (simp add: removeQuery_def dispatch_def)
  have twice: "store_queries hp (dispatched (removeQuery qid (removeQuery qid v)))
           = store_queries hp (dispatched (removeQuery qid v))"
    by (simp add: removeQuery_def dispatch_def store_queries_def)
  have quiet: "recompute resolve st (store_queries hp (dispatched (removeQuery qid v) @ as)) qid = None"
    if "list_all (\<lambda>a. \<not> registers_query a) as"
  proof -
    have "store_queries hp (dispatched (removeQuery qid v)) qid = None"
      by (simp add: removeQuery_def dispatch_def store_queries_def)
    then have "store_queries hp (dispatched (removeQuery qid v) @ as) qid = None"
      using that removed_stays_removed [of "store_queries hp (dispatched (removeQuery qid v))" qid as hp]
      by (simp add: store_queries_def)
    then show ?thesis by (simp add: recompute_def)
  qed
  from handles one twice quiet show ?thesis by blast
qed

theorem unsubscribe_removes_query_once_witness:
  "heap example_world 0 = Some example_query
   \<and> dispatched (projr (unsubscribe (fst (projr (findOne example_service 0 example_world)))
                          (snd (projr (findOne example_service 0 example_world)))))
       = [ApiReadInitAction \<lparr>query = Some 0, jsonApiData = None\<rparr>, RemoveQueryAction ''q1'']
   \<and> recompute example_resolve example_store
        (store_queries (heap example_world)
           (dispatched (read \<lparr>query = Some 0, jsonApiData = None\<rparr> example_world))) ''q1''
       = Some [identifier1]
   \<and> list_all (\<lambda>a. \<not> registers_query a) [PatchStoreResourceAction article1_edited :: unit Action]
   \<and> recompute example_resolve example_store
        (store_queries (heap example_world)
           (dispatched (removeQuery ''q1'' (read \<lparr>query = Some 0, jsonApiData = None\<rparr> example_world))
              @ [PatchStoreResourceAction article1_edited])) ''q1'' = None"
proof -
  have known: "heap example_world 0 = Some example_query"
    by (simp add: example_world_def)
  have later: "list_all (\<lambda>a. \<not> registers_query a) [PatchStoreResourceAction article1_edited :: unit Action]"
    by simp
  have removal: "dispatched (projr (unsubscribe (fst (projr (findOne example_service 0 example_world)))
                          (snd (projr (findOne example_service 0 example_world)))))
       = [ApiReadInitAction \<lparr>query = Some 0, jsonApiData = None\<rparr>, RemoveQueryAction ''q1'']"
    by (simp add: example_world_def example_query_def findOne_def findInternal_def
          unsubscribe_def removeQuery_def dispatch_def Let_def)
  from later unsubscribe_removes_query_once
    [where w = example_world and q = 0 and obj = example_query and this = example_service
       and qid = "''q1''" and v = "read \<lparr>query = Some 0, jsonApiData = None\<rparr> example_world"
       and hp = "heap example_world" and as = "[PatchStoreResourceAction article1_edited]"
       and resolve = example_resolve and st = example_store, OF known]
  have quiet: "recompute example_resolve example_store
        (store_queries (heap example_world)
           (dispatched (removeQuery ''q1'' (read \<lparr>query = Some 0, jsonApiData = None\<rparr> example_world))
              @ [PatchStoreResourceAction article1_edited])) ''q1'' = None"
    by blast
  have before: "recompute example_resolve example_store
        (store_queries (heap example_world)
           (dispatched (read \<lparr>query = Some 0, jsonApiData = None\<rparr> example_world))) ''q1''
       = Some [identifier1]"
    by (simp add: recompute_def store_queries_def read_def dispatch_def example_world_def
          example_query_def example_resolve_def)
  from known later removal before quiet show ?thesis by blast
qed

subsection \<open>Persisted and current state\<close>

lemma in_sync_upsertPersisted:
  assumes "\<forall>i. lookup_pending i (pending s) = None \<longrightarrow>
             getResourceSnapshot (this\<lparr>storeSnapshot := entries s\<rparr>) i
               = getPersistedResourceSnapshot (this\<lparr>storeSnapshot := entries s\<rparr>) i"
  shows "\<forall>i. lookup_pending i (pending (upsertPersisted r s)) = None \<longrightarrow>
             getResourceSnapshot (this\<lparr>storeSnapshot := entries (upsertPersisted r s)\<rparr>) i
               = getPersistedResourceSnapshot
                   (this\<lparr>storeSnapshot := entries (upsertPersisted r s)\<rparr>) i"
proof (intro allI impI)
  fix i :: ResourceIdentifier
  assume "lookup_pending i (pending (upsertPersisted r s)) = None"
  then have none: "lookup_pending i (pending s) = None"
    by (simp add: upsertPersisted_def Let_def)
  with assms have before:
    "getResourceSnapshot (this\<lparr>storeSnapshot := entries s\<rparr>) i
       = getPersistedResourceSnapshot (this\<lparr>storeSnapshot := entries s\<rparr>) i"
    by blast
  show "getResourceSnapshot (this\<lparr>storeSnapshot := entries (upsertPersisted r s)\<rparr>) i
          = getPersistedResourceSnapshot (this\<lparr>storeSnapshot := entries (upsertPersisted r s)\<rparr>) i"
  proof (cases "type' i = type' r \<and> id' i = id' r")
    case True
    then have "i = \<lparr>type' = type' r, id' = id' r\<rparr>" by simp
    with none True show ?thesis
      by (simp add: upsertPersisted_def Let_def getResourceSnapshot_def
            getPersistedResourceSnapshot_def split: option.splits)
  next
    case False
    with before show ?thesis
      by (auto simp: upsertPersisted_def Let_def getResourceSnapshot_def
            getPersistedResourceSnapshot_def split: option.splits)
  qed
qed

text \<open>
  Claim C8. When, in a store, every identifier without a pending local edit has the same
  current and persisted state (as in the empty store), then after any sequence of
  \<^verbatim>\<open>upsertPersisted\<close> calls \<^verbatim>\<open>getResourceSnapshot\<close> and \<^verbatim>\<open>getPersistedResourceSnapshot\<close>
  return the same for every identifier without a pending local edit.
\<close>

theorem upserts_keep_current_equal_persisted:
  assumes "\<forall>i. lookup_pending i (pending s) = None \<longrightarrow>
             getResourceSnapshot (this\<lparr>storeSnapshot := entries s\<rparr>) i
               = getPersistedResourceSnapshot (this\<lparr>storeSnapshot := entries s\<rparr>) i"
  shows "\<forall>i. lookup_pending i (pending (foldl (\<lambda>s r. upsertPersisted r s) s rs)) = None \<longrightarrow>
             getResourceSnapshot
                 (this\<lparr>storeSnapshot := entries (foldl (\<lambda>s r. upsertPersisted r s) s rs)\<rparr>) i
               = getPersistedResourceSnapshot
                 (this\<lparr>storeSnapshot := entries (foldl (\<lambda>s r. upsertPersisted r s) s rs)\<rparr>) i"
  using assms
proof (induction rs arbitrary: s)
  case Nil
  then show ?case by simp
next
  case (Cons r rs)
  from Cons.prems have "\<forall>i. lookup_pending i (pending (upsertPersisted r s)) = None \<longrightarrow>
             getResourceSnapshot (this\<lparr>storeSnapshot := entries (upsertPersisted r s)\<rparr>) i
               = getPersistedResourceSnapshot
                   (this\<lparr>storeSnapshot := entries (upsertPersisted r s)\<rparr>) i"
    by (rule in_sync_upsertPersisted)
  from Cons.IH [OF this] show ?case by simp
qed

theorem upserts_keep_current_equal_persisted_witness:
  "getResourceSnapshot
     (example_service\<lparr>storeSnapshot :=
        entries (foldl (\<lambda>s r. upsertPersisted r s) initialState [article1, article2, article1_edited])\<rparr>)
     identifier1 = Some article1_edited
   \<and> getPersistedResourceSnapshot
     (example_service\<lparr>storeSnapshot :=
        entries (foldl (\<lambda>s r. upsertPersisted r s) initialState [article1, article2, article1_edited])\<rparr>)
     identifier1 = Some article1_edited"
proof -
  have start: "\<forall>i. lookup_pending i (pending initialState) = None \<longrightarrow>
             getResourceSnapshot (example_service\<lparr>storeSnapshot := entries initialState\<rparr>) i
               = getPersistedResourceSnapshot
                   (example_service\<lparr>storeSnapshot := entries initialState\<rparr>) i"
    by (simp add: initialState_def getResourceSnapshot_def getPersistedResourceSnapshot_def)
  have current: "getResourceSnapshot
     (example_service\<lparr>storeSnapshot :=
        entries (foldl (\<lambda>s r. upsertPersisted r s) initialState [article1, article2, article1_edited])\<rparr>)
     identifier1 = Some article1_edited"
    by (simp add: initialState_def upsertPersisted_def Let_def getResourceSnapshot_def
          lookup_pending_def identifier1_def article1_def article2_def article1_edited_def)
  have untouched: "lookup_pending identifier1
      (pending (foldl (\<lambda>s r. upsertPersisted r s) initialState [article1, article2, article1_edited]))
      = None"
    by (simp add: initialState_def upsertPersisted_def Let_def lookup_pending_def)
  from upserts_keep_current_equal_persisted [OF start, of "[article1, article2, article1_edited]"]
    untouched current
  show ?thesis by simp
qed

subsection \<open>One pending record per identifier\<close>

lemma record_identifier_merge_patch:
  "record_identifier (merge_patch a rels c) = record_identifier c"
  by (cases c) simp_all

lemma lookup_pending_None: "lookup_pending i t = None \<longleftrightarrow> i \<notin> record_identifier ` set t"
  by (auto simp: lookup_pending_def find_None_iff)

lemma lookup_pending_Some: "lookup_pending i t = Some c \<Longrightarrow> record_identifier c = i \<and> c \<in> set t"
  by (auto simp: lookup_pending_def find_Some_iff)

lemma identifiers_replace:
  assumes "\<And>c. record_identifier c = i \<Longrightarrow> record_identifier (f c) = i"
  shows "map record_identifier (map (\<lambda>c. if record_identifier c = i then f c else c) t)
           = map record_identifier t"
  using assms by (induction t) simp_all

lemma identifiers_stageCreate:
  assumes "distinct (map record_identifier t)"
  shows "distinct (map record_identifier (stageCreate r t))"
proof (cases "lookup_pending \<lparr>type' = type' r, id' = id' r\<rparr> t")
  case None
  then have "\<lparr>type' = type' r, id' = id' r\<rparr> \<notin> record_identifier ` set t"
    by (simp add: lookup_pending_None)
  then show ?thesis
    using assms None by (simp add: stageCreate_def Let_def)
next
  case (Some c)
  have replaced: "map record_identifier
          (map (\<lambda>c. if record_identifier c = \<lparr>type' = type' r, id' = id' r\<rparr> then Create r else c) t)
        = map record_identifier t"
    by (rule identifiers_replace) simp
  have eq: "stageCreate r t
        = map (\<lambda>c. if record_identifier c = \<lparr>type' = type' r, id' = id' r\<rparr> then Create r else c) t"
    using Some by (simp add: stageCreate_def Let_def)
  show ?thesis
    unfolding eq replaced by (rule assms)
qed

lemma identifiers_stagePatch:
  assumes "distinct (map record_identifier t)"
  shows "distinct (map record_identifier (stagePatch i a rels t))"
proof (cases "lookup_pending i t")
  case None
  then have "i \<notin> record_identifier ` set t"
    by (simp add: lookup_pending_None)
  then show ?thesis
    using assms None by (simp add: stagePatch_def)
next
  case (Some c)
  have replaced: "map record_identifier
          (map (\<lambda>c. if record_identifier c = i then merge_patch a rels c else c) t)
        = map record_identifier t"
    by (rule identifiers_replace) (simp add: record_identifier_merge_patch)
  have eq: "stagePatch i a rels t
        = map (\<lambda>c. if record_identifier c = i then merge_patch a rels c else c) t"
    using Some by (simp add: stagePatch_def)
  show ?thesis
    unfolding eq replaced by (rule assms)
qed

lemma identifiers_stageDelete:
  assumes "distinct (map record_identifier t)"
  shows "distinct (map record_identifier (stageDelete i t))"
proof (cases "lookup_pending i t")
  case None
  then have "i \<notin> record_identifier ` set t"
    by (simp add: lookup_pending_None)
  then show ?thesis
    using assms None by (simp add: stageDelete_def)
next
  case (Some c)
  show ?thesis
  proof (cases "\<exists>r. c = Create r")
    case True
    then have eq: "stageDelete i t = filter (\<lambda>c. record_identifier c \<noteq> i) t"
      using Some by (auto simp: stageDelete_def)
    show ?thesis
      unfolding eq using assms by (rule distinct_map_filter)
  next
    case False
    have replaced: "map record_identifier
            (map (\<lambda>c. if record_identifier c = i then Delete i else c) t)
          = map record_identifier t"
      by (rule identifiers_replace) simp
    have eq: "stageDelete i t = map (\<lambda>c. if record_identifier c = i then Delete i else c) t"
      using Some False by (cases c) (simp_all add: stageDelete_def)
    show ?thesis
      unfolding eq replaced by (rule assms)
  qed
qed

lemma identifiers_stage:
  "distinct (map record_identifier t) \<Longrightarrow> distinct (map record_identifier (stage c t))"
  by (cases c) (simp_all add: identifiers_stageCreate identifiers_stagePatch identifiers_stageDelete)

lemma identifiers_foldl_stage:
  "distinct (map record_identifier t)
     \<Longrightarrow> distinct (map record_identifier (foldl (\<lambda>t c. stage c t) t cs))"
  by (induction cs arbitrary: t) (simp_all add: identifiers_stage)

lemma lookup_pending_replace:
  assumes "lookup_pending i t = Some c" and "record_identifier (f c) = i"
  shows "lookup_pending i (map (\<lambda>c. if record_identifier c = i then f c else c) t) = Some (f c)"
  using assms unfolding lookup_pending_def
  by (induction t) (auto split: if_splits)

lemma lookup_pending_filter:
  "lookup_pending i (filter (\<lambda>c. record_identifier c \<noteq> i) t) = None"
  by (auto simp: lookup_pending_None)

text \<open>
  Claim C9. Whatever sequence of changes is staged, the pending records have pairwise
  different identifiers. A Patch staged on a pending Create or Patch of its identifier
  merges into that record and adds none; a Delete staged on a pending Patch takes its
  place; a Delete staged on a pending Create leaves no record for the identifier, so no
  Delete of it is pending.
\<close>

theorem pending_tracker_one_record_per_identifier:
  "distinct (map record_identifier (allPending (staged cs)))
   \<and> (lookup_pending i t = Some (Create r) \<longrightarrow>
        lookup_pending i (stagePatch i a rels t)
          = Some (Create (r\<lparr>attributes := attributes r ++ a,
                            relationships := relationships r ++ rels\<rparr>))
        \<and> length (stagePatch i a rels t) = length t)
   \<and> (lookup_pending i t = Some (Patch j a0 rels0) \<longrightarrow>
        lookup_pending i (stagePatch i a rels t) = Some (Patch j (a0 ++ a) (rels0 ++ rels))
        \<and> length (stagePatch i a rels t) = length t)
   \<and> (lookup_pending i t = Some (Patch j a0 rels0) \<longrightarrow>
        lookup_pending i (stageDelete i t) = Some (Delete i)
        \<and> length (stageDelete i t) = length t)
   \<and> (lookup_pending i t = Some (Create r) \<longrightarrow>
        lookup_pending i (stageDelete i t) = None
        \<and> Delete i \<notin> set (allPending (stageDelete i t)))"
proof -
  have one: "distinct (map record_identifier (allPending (staged cs)))"
    unfolding staged_def allPending_def by (rule identifiers_foldl_stage) simp
  have patch_create: "lookup_pending i (stagePatch i a rels t)
          = Some (Create (r\<lparr>attributes := attributes r ++ a,
                            relationships := relationships r ++ rels\<rparr>))
        \<and> length (stagePatch i a rels t) = length t"
    if h: "lookup_pending i t = Some (Create r)"
  proof -
    have "record_identifier (merge_patch a rels (Create r)) = i"
      using lookup_pending_Some [OF h] by (simp add: record_identifier_merge_patch)
    from lookup_pending_replace [OF h, of "merge_patch a rels", OF this] h
    show ?thesis by (simp add: stagePatch_def)
  qed
  have patch_patch: "lookup_pending i (stagePatch i a rels t) = Some (Patch j (a0 ++ a) (rels0 ++ rels))
        \<and> length (stagePatch i a rels t) = length t"
    if h: "lookup_pending i t = Some (Patch j a0 rels0)"
  proof -
    have "record_identifier (merge_patch a rels (Patch j a0 rels0)) = i"
      using lookup_pending_Some [OF h] by (simp add: record_identifier_merge_patch)
    from lookup_pending_replace [OF h, of "merge_patch a rels", OF this] h
    show ?thesis by (simp add: stagePatch_def)
  qed
  have delete_patch: "lookup_pending i (stageDelete i t) = Some (Delete i)
        \<and> length (stageDelete i t) = length t"
    if h: "lookup_pending i t = Some (Patch j a0 rels0)"
  proof -
    have "record_identifier ((\<lambda>_. Delete i) (Patch j a0 rels0)) = i" by simp
    from lookup_pending_replace [OF h, of "\<lambda>_. Delete i", OF this] h
    show ?thesis by (simp add: stageDelete_def)
  qed
  have delete_create: "lookup_pending i (stageDelete i t) = None
        \<and> Delete i \<notin> set (allPending (stageDelete i t))"
    if h: "lookup_pending i t = Some (Create r)"
    using h by (simp add: stageDelete_def allPending_def lookup_pending_filter)
  from one patch_create patch_patch delete_patch delete_create show ?thesis by blast
qed

theorem pending_tracker_one_record_per_identifier_witness:
  "lookup_pending identifier1 (staged [Create article1]) = Some (Create article1)
   \<and> staged [Create article1, Patch identifier1 [''title'' \<mapsto> ''draft''] Map.empty]
       = [Create article1_edited]
   \<and> staged [Create article1, Delete identifier1] = []
   \<and> lookup_pending identifier1 (staged [Patch identifier1 [''title'' \<mapsto> ''draft''] Map.empty])
       = Some (Patch identifier1 [''title'' \<mapsto> ''draft''] Map.empty)
   \<and> staged [Patch identifier1 [''title'' \<mapsto> ''draft''] Map.empty, Delete identifier1]
       = [Delete identifier1]
   \<and> distinct (map record_identifier (allPending
        (staged [Create article1, Patch identifier1 [''title'' \<mapsto> ''draft''] Map.empty,
                 Create article2, Delete identifier1])))"
  using pending_tracker_one_record_per_identifier
    [where cs = "[Create article1, Patch identifier1 [''title'' \<mapsto> ''draft''] Map.empty,
                 Create article2, Delete identifier1]"
       and i = identifier1 and t = "staged [Create article1]" and r = article1
       and a = "[''title'' \<mapsto> ''draft'']" and rels = Map.empty]
  by (simp add: staged_def stageCreate_def stagePatch_def stageDelete_def lookup_pending_def
        allPending_def identifier1_def article1_def article1_edited_def article2_def)

end
